theory Spec2Isabelle
  imports Complex_Main
begin

section \<open>Password Strength Meter: embedding of \<^verbatim>\<open>app.py\<close>\<close>

subsection \<open>Python values and strings\<close>

text \<open>
  A Python \<^verbatim>\<open>str\<close> is a sequence of Unicode code points, and \<^verbatim>\<open>len\<close> counts code
  points; a string is therefore a list of code-point numbers. String constants of the
  source are written as literals and converted with \<open>str\<close>.
\<close>

type_synonym pystr = "nat list"

definition str :: "string \<Rightarrow> pystr" where
  "str s = map of_char s"

text \<open>The values a caller can pass where the source expects a password or a length.\<close>

datatype pyvalue =
    PyStr pystr
  | PyInt int
  | PyBool bool
  | PyFloat rat
  | PyNone
  | PyBytes "nat list"
  | PyList "pyvalue list"

text \<open>
  The exceptions that reach the caller: \<^verbatim>\<open>range\<close> raises \<^verbatim>\<open>TypeError\<close>, and the estimator
  raises \<^verbatim>\<open>IndexError\<close> or \<^verbatim>\<open>ValueError\<close> on some passwords.
\<close>

datatype pyerror = TypeError | IndexError | ValueError

text \<open>
  The part of the Python runtime's Unicode database that the source reaches through
  \<^verbatim>\<open>\d\<close> and \<^verbatim>\<open>str.lower\<close>, outside ASCII: which non-ASCII code points have category
  Nd (decimal digit), and the lower-casing of a string that holds a non-ASCII code point
  (not a per-character map: it depends on context, as for the final sigma).
\<close>

record unicode_db =
  nd_nonascii :: "nat \<Rightarrow> bool"
  lower_nonascii :: "pystr \<Rightarrow> pystr"

definition ascii_lower :: "nat \<Rightarrow> nat" where
  "ascii_lower c = (if 65 \<le> c \<and> c \<le> 90 then c + 32 else c)"

definition py_lower :: "unicode_db \<Rightarrow> pystr \<Rightarrow> pystr" where
  \<comment> \<open>\<^verbatim>\<open>password.lower()\<close>\<close>
  "py_lower u s =
     (if list_all (\<lambda>c. c < 128) s then map ascii_lower s else lower_nonascii u s)"

subsection \<open>The four regular expressions\<close>

text \<open>
  \<^verbatim>\<open>re.search\<close> of a one-character class succeeds exactly when some character of the
  string is in the class. \<^verbatim>\<open>[A-Z]\<close>, \<^verbatim>\<open>[a-z]\<close> and \<^verbatim>\<open>[!@#$%^&*]\<close> list code points;
  \<^verbatim>\<open>\d\<close> on a \<^verbatim>\<open>str\<close> pattern (no \<^verbatim>\<open>re.ASCII\<close> flag) is every Unicode decimal digit.
\<close>

definition is_ascii_upper :: "nat \<Rightarrow> bool" where
  "is_ascii_upper c = (65 \<le> c \<and> c \<le> 90)"

definition is_ascii_lower :: "nat \<Rightarrow> bool" where
  "is_ascii_lower c = (97 \<le> c \<and> c \<le> 122)"

definition is_ascii_digit :: "nat \<Rightarrow> bool" where
  "is_ascii_digit c = (48 \<le> c \<and> c \<le> 57)"

definition is_re_digit :: "unicode_db \<Rightarrow> nat \<Rightarrow> bool" where
  "is_re_digit u c = (is_ascii_digit c \<or> (128 \<le> c \<and> nd_nonascii u c))"

definition special_characters :: pystr where
  "special_characters = str ''!@#$%^&*''"

definition is_special :: "nat \<Rightarrow> bool" where
  "is_special c = (c \<in> set special_characters)"

definition search_upper :: "pystr \<Rightarrow> bool" where
  \<comment> \<open>\<^verbatim>\<open>re.search(r"[A-Z]", password)\<close>\<close>
  "search_upper s = list_ex is_ascii_upper s"

definition search_lower :: "pystr \<Rightarrow> bool" where
  \<comment> \<open>\<^verbatim>\<open>re.search(r"[a-z]", password)\<close>\<close>
  "search_lower s = list_ex is_ascii_lower s"

definition search_digit :: "unicode_db \<Rightarrow> pystr \<Rightarrow> bool" where
  \<comment> \<open>\<^verbatim>\<open>re.search(r"\d", password)\<close>\<close>
  "search_digit u s = list_ex (is_re_digit u) s"

definition search_special :: "pystr \<Rightarrow> bool" where
  \<comment> \<open>\<^verbatim>\<open>re.search(r"[!@#$%^&*]", password)\<close>\<close>
  "search_special s = list_ex is_special s"

subsection \<open>Constants of the source\<close>

definition COMMON_PASSWORDS :: "pystr list" where
  "COMMON_PASSWORDS =
     [str ''password'', str ''123456'', str ''12345678'', str ''qwerty'', str ''abc123'']"

definition msg_invalid :: pystr where
  "msg_invalid = str ''Invalid input: password must be a string.''"

definition msg_common :: pystr where
  "msg_common = str ''This password is too common. Please choose a different one.''"

definition msg_length :: pystr where
  "msg_length = str ''Password should be at least 8 characters long.''"

definition msg_case :: pystr where
  "msg_case = str ''Include both uppercase and lowercase letters.''"

definition msg_digit :: pystr where
  "msg_digit = str ''Add at least one number (0-9).''"

definition msg_special :: pystr where
  "msg_special = str ''Include at least one special character (!@#$%^&*).''"

subsection \<open>The heuristic estimator\<close>

text \<open>
  \<^verbatim>\<open>zxcvbn(password)\<close> returns a dictionary; the source reads \<^verbatim>\<open>result['score']\<close>,
  \<^verbatim>\<open>result['feedback']['warning']\<close> and \<^verbatim>\<open>result['feedback']['suggestions']\<close>.
  The import at start-up either binds the function (\<^verbatim>\<open>ZXCVBN_AVAILABLE = True\<close>) or
  does not: an optional function. The estimator is an external library: a call either
  returns a result of this shape or raises, and line 59 has no \<^verbatim>\<open>try\<close> around it, so an
  exception of the estimator leaves \<^verbatim>\<open>check_password_strength\<close> with it.
\<close>

record zx_result =
  zx_score :: int
  zx_warning :: pystr
  zx_suggestions :: "pystr list"

type_synonym estimator = "(pystr \<Rightarrow> pyerror + zx_result) option"

subsection \<open>\<^verbatim>\<open>check_password_strength\<close>\<close>

text \<open>
  Lines 33 to 54: the counter and the feedback list are threaded through the four
  \<^verbatim>\<open>if\<close>/\<^verbatim>\<open>else\<close> statements in the order of the source.
\<close>

definition basic_checks :: "unicode_db \<Rightarrow> pystr \<Rightarrow> int \<times> pystr list" where
  "basic_checks u password =
     (let (basic_score, feedback) = (0, []);
          (basic_score, feedback) =
            (if length password \<ge> 8 then (basic_score + 1, feedback)
             else (basic_score, feedback @ [msg_length]));
          (basic_score, feedback) =
            (if search_upper password \<and> search_lower password then (basic_score + 1, feedback)
             else (basic_score, feedback @ [msg_case]));
          (basic_score, feedback) =
            (if search_digit u password then (basic_score + 1, feedback)
             else (basic_score, feedback @ [msg_digit]));
          (basic_score, feedback) =
            (if search_special password then (basic_score + 1, feedback)
             else (basic_score, feedback @ [msg_special]))
      in (basic_score, feedback))"

text \<open>
  The outcome is the returned pair \<open>(score, feedback)\<close>, or the exception that the call
  of the estimator raised, together with the list of arguments with which the estimator
  was called during the evaluation. The score is an
  \<^verbatim>\<open>int\<close> or, with the estimator, the \<^verbatim>\<open>float\<close> \<open>(basic_score + advanced_score) / 2\<close>;
  a half of an integer is exact in binary floating point, so the score is a rational.
\<close>

definition check_password_strength ::
  "unicode_db \<Rightarrow> estimator \<Rightarrow> pyvalue \<Rightarrow> (pyerror + rat \<times> pystr list) \<times> pystr list" where
  "check_password_strength u zxcvbn v =
     (case v of
        PyStr password \<Rightarrow>
          if py_lower u password \<in> set COMMON_PASSWORDS
          then (Inr (0, [msg_common]), [])
          else
            let (basic_score, feedback) = basic_checks u password;
                score = rat_of_int basic_score
            in (case zxcvbn of
                  None \<Rightarrow> (Inr (score, feedback), [])
                | Some estimate \<Rightarrow>
                    (case estimate password of
                       Inl exn \<Rightarrow> (Inl exn, [password])
                     | Inr result \<Rightarrow>
                         let advanced_score = zx_score result;
                             score = rat_of_int (basic_score + advanced_score) / 2;
                             feedback =
                               (if zx_warning result \<noteq> [] then feedback @ [zx_warning result]
                                else feedback);
                             feedback =
                               (if zx_suggestions result \<noteq> []
                                then feedback @ zx_suggestions result
                                else feedback)
                         in (Inr (score, feedback), [password])))
      | _ \<Rightarrow> (Inr (0, [msg_invalid]), []))"

subsection \<open>\<^verbatim>\<open>generate_strong_password\<close>\<close>

definition ascii_letters :: pystr where
  \<comment> \<open>\<^verbatim>\<open>string.ascii_letters\<close>: lower case, then upper case\<close>
  "ascii_letters = str ''abcdefghijklmnopqrstuvwxyzABCDEFGHIJKLMNOPQRSTUVWXYZ''"

definition digits :: pystr where
  \<comment> \<open>\<^verbatim>\<open>string.digits\<close>\<close>
  "digits = str ''0123456789''"

definition characters :: pystr where
  "characters = ascii_letters @ digits @ str ''!@#$%^&*''"

text \<open>
  \<^verbatim>\<open>random.choice(seq)\<close> returns \<^verbatim>\<open>seq[i]\<close> for an index \<open>i\<close> below \<^verbatim>\<open>len(seq)\<close> that
  the generator picks. The generator is a sequence of raw draws, the \<open>k\<close>-th call
  consuming the \<open>k\<close>-th draw, reduced below the length.
\<close>

definition random_choice :: "'a list \<Rightarrow> nat \<Rightarrow> 'a" where
  "random_choice seq r = seq ! (r mod length seq)"

text \<open>
  \<^verbatim>\<open>range(length)\<close> raises \<^verbatim>\<open>TypeError\<close> unless the length is an integer (a \<^verbatim>\<open>bool\<close>
  is one), and is empty for a length that is not positive.
\<close>

definition py_range :: "pyvalue \<Rightarrow> pyerror + nat list" where
  "py_range v =
     (case v of
        PyInt n \<Rightarrow> Inr [0 ..< nat n]
      | PyBool b \<Rightarrow> Inr [0 ..< (if b then 1 else 0)]
      | _ \<Rightarrow> Inl TypeError)"

definition generate_strong_password :: "(nat \<Rightarrow> nat) \<Rightarrow> pyvalue \<Rightarrow> pyerror + pystr" where
  "generate_strong_password draws len =
     (case py_range len of
        Inl e \<Rightarrow> Inl e
      | Inr ks \<Rightarrow> Inr (map (\<lambda>k. random_choice characters (draws k)) ks))"

subsection \<open>The caller: percentage, colour and tier\<close>

text \<open>\<^verbatim>\<open>int(x)\<close> of a float truncates toward zero.\<close>

definition py_int :: "rat \<Rightarrow> int" where
  "py_int x = (if 0 \<le> x then \<lfloor>x\<rfloor> else \<lceil>x\<rceil>)"

definition strength_percentage :: "rat \<Rightarrow> int" where
  \<comment> \<open>line 116: \<^verbatim>\<open>min(int((score / 4) * 100), 100)\<close>\<close>
  "strength_percentage score = min (py_int ((score / 4) * 100)) 100"

definition get_progress_color :: "int \<Rightarrow> string" where
  "get_progress_color percentage =
     (if percentage < 40 then ''#F44336''
      else if percentage < 70 then ''#FF9800''
      else ''#4CAF50'')"

datatype tier = Strong | Moderate | Weak

definition strength_tier :: "rat \<Rightarrow> tier" where
  \<comment> \<open>lines 128 to 133: which of the three messages is displayed\<close>
  "strength_tier score =
     (if score \<ge> 3.5 then Strong
      else if score \<ge> 2.5 then Moderate
      else Weak)"

subsection \<open>What the specification says, and sample collaborators\<close>

text \<open>
  Two strings are equal "compared case-insensitively" when they agree after the ASCII
  letters of both are lower-cased: the case mixtures of the entries of the list.
\<close>

definition caseless_eq :: "pystr \<Rightarrow> pystr \<Rightarrow> bool" where
  "caseless_eq s t = (map ascii_lower s = map ascii_lower t)"

text \<open>
  The number of checks of lines 36, 41, 46 and 51 that pass, and the messages of those
  that fail, written without the threading of the two variables.
\<close>

definition passed_checks :: "unicode_db \<Rightarrow> pystr \<Rightarrow> int" where
  "passed_checks u p =
     (if length p \<ge> 8 then 1 else 0) + (if search_upper p \<and> search_lower p then 1 else 0)
     + (if search_digit u p then 1 else 0) + (if search_special p then 1 else 0)"

definition rule_feedback :: "unicode_db \<Rightarrow> pystr \<Rightarrow> pystr list" where
  "rule_feedback u p =
     (if length p \<ge> 8 then [] else [msg_length])
     @ (if search_upper p \<and> search_lower p then [] else [msg_case])
     @ (if search_digit u p then [] else [msg_digit])
     @ (if search_special p then [] else [msg_special])"

text \<open>
  The rule scorer as the specification words it: four checks in the fixed order length,
  case, digit, special, the digit check being "at least one decimal digit (0-9)"; the
  basic score counts the checks that pass and each failed check contributes its message.
\<close>

definition spec_checks :: "pystr \<Rightarrow> (bool \<times> pystr) list" where
  "spec_checks p =
     [(length p \<ge> 8, msg_length),
      (list_ex is_ascii_upper p \<and> list_ex is_ascii_lower p, msg_case),
      (list_ex is_ascii_digit p, msg_digit),
      (list_ex is_special p, msg_special)]"

definition spec_basic_score :: "pystr \<Rightarrow> int" where
  "spec_basic_score p = int (length (filter fst (spec_checks p)))"

definition spec_feedback :: "pystr \<Rightarrow> pystr list" where
  "spec_feedback p = map snd (filter (\<lambda>(ok, m). \<not> ok) (spec_checks p))"

text \<open>
  The percentage as the specification words it, \<^verbatim>\<open>min(round(score / 4 * 100), 100)\<close>,
  with Python's \<^verbatim>\<open>round\<close>: to the nearest integer, a tie going to the even one.
\<close>

definition py_round :: "rat \<Rightarrow> int" where
  "py_round x =
     (let f = \<lfloor>x\<rfloor>; d = x - of_int f
      in if d < 1/2 then f else if 1/2 < d then f + 1 else if even f then f else f + 1)"

definition spec_percentage :: "rat \<Rightarrow> int" where
  "spec_percentage score = min (py_round (score / 4 * 100)) 100"

text \<open>
  The pool of the generator as the specification describes it: upper-case letters,
  lower-case letters, digits and the eight special characters.
\<close>

definition in_pool :: "nat \<Rightarrow> bool" where
  "in_pool c = (is_ascii_upper c \<or> is_ascii_lower c \<or> is_ascii_digit c \<or> is_special c)"

text \<open>The colours, named as the comments of \<^verbatim>\<open>get_progress_color\<close> name them.\<close>

definition color_red :: string where
  "color_red = ''#F44336''"

definition color_orange :: string where
  "color_orange = ''#FF9800''"

definition color_green :: string where
  "color_green = ''#4CAF50''"

text \<open>
  A fragment of the Unicode database, enough for the inputs evaluated below: the
  Arabic-Indic digits U+0660 to U+0669 have category Nd, and lower-casing leaves the
  non-ASCII strings used here unchanged.
\<close>

definition arabic_indic_db :: unicode_db where
  "arabic_indic_db =
     \<lparr> nd_nonascii = (\<lambda>c. 1632 \<le> c \<and> c \<le> 1641), lower_nonascii = (\<lambda>s. s) \<rparr>"

text \<open>
  Two estimators with fixed answers, of the shape \<^verbatim>\<open>zxcvbn\<close> returns, and one that
  raises where \<^verbatim>\<open>zxcvbn\<close> does: \<^verbatim>\<open>IndexError\<close> on the empty password and \<^verbatim>\<open>ValueError\<close>
  on a password of more than 72 characters.
\<close>

definition strong_estimate :: "pystr \<Rightarrow> pyerror + zx_result" where
  "strong_estimate password = Inr \<lparr> zx_score = 4, zx_warning = [], zx_suggestions = [] \<rparr>"



section \<open>Properties\<close>

subsection \<open>Auxiliary facts\<close>

lemmas search_defs =
  search_upper_def search_lower_def search_digit_def search_special_def
  is_ascii_upper_def is_ascii_lower_def is_ascii_digit_def is_re_digit_def
  is_special_def special_characters_def

lemma basic_checks_eq: "basic_checks u p = (passed_checks u p, rule_feedback u p)"
  by (simp add: basic_checks_def passed_checks_def rule_feedback_def)

lemma passed_checks_range: "0 \<le> passed_checks u p \<and> passed_checks u p \<le> 4"
  by (simp add: passed_checks_def)

lemma rule_feedback_length: "int (length (rule_feedback u p)) = 4 - passed_checks u p"
  by (simp add: passed_checks_def rule_feedback_def)

lemma rule_feedback_empty: "rule_feedback u p = [] \<longleftrightarrow> passed_checks u p = 4"
  by (simp add: passed_checks_def rule_feedback_def)

lemma common_ascii: "e \<in> set COMMON_PASSWORDS \<Longrightarrow> list_all (\<lambda>c. c < 128) e"
  by (auto simp add: COMMON_PASSWORDS_def str_def)

lemma common_lowercase: "e \<in> set COMMON_PASSWORDS \<Longrightarrow> map ascii_lower e = e"
  by (auto simp add: COMMON_PASSWORDS_def str_def ascii_lower_def)

lemma ascii_lower_ascii: "ascii_lower c < 128 \<Longrightarrow> c < 128"
  by (simp add: ascii_lower_def split: if_splits)

lemma map_ascii_lower_ascii:
  "list_all (\<lambda>c. c < 128) (map ascii_lower s) \<Longrightarrow> list_all (\<lambda>c. c < 128) s"
  by (induction s) (auto dest: ascii_lower_ascii)

lemma caseless_common_lower:
  assumes "e \<in> set COMMON_PASSWORDS" and "caseless_eq password e"
  shows "py_lower u password = e"
proof -
  from assms have eq: "map ascii_lower password = e"
    by (simp add: caseless_eq_def common_lowercase)
  with assms(1) have "list_all (\<lambda>c. c < 128) (map ascii_lower password)"
    by (simp add: common_ascii)
  then have "list_all (\<lambda>c. c < 128) password"
    by (rule map_ascii_lower_ascii)
  with eq show ?thesis by (simp add: py_lower_def)
qed

subsection \<open>Short-circuits\<close>

text \<open>
  Claim C2. A password that is a case mixture of an entry of \<^verbatim>\<open>COMMON_PASSWORDS\<close> gets
  score 0 and the single feedback entry "This password is too common. Please choose a
  different one."; none of the four rule messages is produced and the estimator,
  available or not, is called with nothing.
\<close>

theorem common_password_short_circuit:
  assumes "e \<in> set COMMON_PASSWORDS" and "caseless_eq password e"
  shows "check_password_strength u zxcvbn (PyStr password) = (Inr (0, [msg_common]), [])"
  using assms(1) caseless_common_lower [OF assms, of u]
  by (simp add: check_password_strength_def)

theorem common_password_short_circuit_witness:
  "str ''qwerty'' \<in> set COMMON_PASSWORDS \<and> caseless_eq (str ''QwErTy'') (str ''qwerty'') \<and>
   check_password_strength arabic_indic_db (Some strong_estimate) (PyStr (str ''QwErTy''))
     = (Inr (0, [msg_common]), [])"
proof -
  have a: "str ''qwerty'' \<in> set COMMON_PASSWORDS"
    by (simp add: COMMON_PASSWORDS_def)
  have b: "caseless_eq (str ''QwErTy'') (str ''qwerty'')"
    by (simp add: caseless_eq_def str_def ascii_lower_def)
  show ?thesis
    using a b common_password_short_circuit [OF a b, of arabic_indic_db "Some strong_estimate"]
    by simp
qed

text \<open>
  Claim C3. An input that is not a string gets score 0 and the single feedback entry
  "Invalid input: password must be a string."; the function returns this pair (it raises
  nothing), no rule message is produced and the estimator is not called.
\<close>

theorem non_string_input_invalid:
  "(\<forall>s. v \<noteq> PyStr s) \<Longrightarrow>
     check_password_strength u zxcvbn v = (Inr (0, [msg_invalid]), [])"
  by (cases v) (simp_all add: check_password_strength_def)

theorem non_string_input_invalid_witness:
  "(\<forall>s. PyInt 12345678 \<noteq> PyStr s) \<and>
   check_password_strength arabic_indic_db (Some strong_estimate) (PyInt 12345678)
     = (Inr (0, [msg_invalid]), [])"
  using non_string_input_invalid [of "PyInt 12345678" arabic_indic_db "Some strong_estimate"]
  by simp

subsection \<open>The rule checks\<close>

text \<open>
  The threading of lines 33 to 54 computes what the specification describes on every
  password without a decimal digit from outside ASCII, and on \<^verbatim>\<open>"abcdefgh"\<close> it gives
  basic score 1 with the messages for case, digit and special, in that order.
\<close>

lemma basic_checks_meets_spec:
  assumes "\<not> list_ex (\<lambda>c. 128 \<le> c \<and> nd_nonascii u c) p"
  shows "basic_checks u p = (spec_basic_score p, spec_feedback p)"
proof -
  from assms have "search_digit u p = list_ex is_ascii_digit p"
    by (auto simp add: search_digit_def is_re_digit_def list_ex_iff)
  then show ?thesis
    by (simp add: basic_checks_eq passed_checks_def rule_feedback_def spec_basic_score_def
        spec_feedback_def spec_checks_def search_upper_def search_lower_def search_special_def)
qed

lemma abcdefgh_result:
  "check_password_strength u None (PyStr (str ''abcdefgh''))
     = (Inr (1, [msg_case, msg_digit, msg_special]), [])"
  by (simp add: check_password_strength_def basic_checks_eq passed_checks_def rule_feedback_def
      py_lower_def ascii_lower_def COMMON_PASSWORDS_def str_def search_defs)

text \<open>
  Claim C4. The digit check of the claim is "at least one decimal digit (0-9)", as the
  message of line 49 says. On the seven letters \<^verbatim>\<open>abcdefg\<close> followed by the Arabic-Indic
  digit three (U+0663), which \<^verbatim>\<open>\d\<close> matches, the code counts the digit check as passed:
  it returns score 2 with the messages for case and special, where the rule scorer of the
  claim gives basic score 1 with the messages for case, digit and special.
\<close>

theorem digit_check_accepts_non_ascii_digit:
  assumes "nd_nonascii u 1635"
      and "lower_nonascii u (str ''abcdefg'' @ [1635]) = str ''abcdefg'' @ [1635]"
  shows "check_password_strength u None (PyStr (str ''abcdefg'' @ [1635]))
           = (Inr (2, [msg_case, msg_special]), []) \<and>
         spec_basic_score (str ''abcdefg'' @ [1635]) = 1 \<and>
         spec_feedback (str ''abcdefg'' @ [1635]) = [msg_case, msg_digit, msg_special]"
proof -
  have a: "py_lower u (str ''abcdefg'' @ [1635]) \<notin> set COMMON_PASSWORDS"
    using assms(2) by (simp add: py_lower_def str_def COMMON_PASSWORDS_def)
  have b: "basic_checks u (str ''abcdefg'' @ [1635]) = (2, [msg_case, msg_special])"
    using assms(1)
    by (simp add: basic_checks_eq passed_checks_def rule_feedback_def str_def search_defs)
  have c: "spec_basic_score (str ''abcdefg'' @ [1635]) = 1"
    by (simp add: spec_basic_score_def spec_checks_def str_def search_defs)
  have d: "spec_feedback (str ''abcdefg'' @ [1635]) = [msg_case, msg_digit, msg_special]"
    by (simp add: spec_feedback_def spec_checks_def str_def search_defs)
  show ?thesis using a b c d by (simp add: check_password_strength_def)
qed

theorem digit_check_accepts_non_ascii_digit_witness:
  "nd_nonascii arabic_indic_db 1635 \<and>
   lower_nonascii arabic_indic_db (str ''abcdefg'' @ [1635]) = str ''abcdefg'' @ [1635] \<and>
   check_password_strength arabic_indic_db None (PyStr (str ''abcdefg'' @ [1635]))
     = (Inr (2, [msg_case, msg_special]), [])"
proof -
  have a: "nd_nonascii arabic_indic_db 1635"
    by (simp add: arabic_indic_db_def)
  have b: "lower_nonascii arabic_indic_db (str ''abcdefg'' @ [1635]) = str ''abcdefg'' @ [1635]"
    by (simp add: arabic_indic_db_def)
  show ?thesis using a b digit_check_accepts_non_ascii_digit [OF a b] by simp
qed

subsection \<open>Combining the two scores\<close>









text \<open>
  Claim C10. For a string that is not short-circuited, the rule checks leave
  \<open>4 - basic_score\<close> feedback entries; without the estimator the function returns the
  basic score with the feedback of the rule checks, and that feedback is empty exactly
  when the score is 4.
\<close>

theorem feedback_count_complements_score:
  assumes "py_lower u password \<notin> set COMMON_PASSWORDS"
      and "basic_checks u password = (basic_score, rule_fb)"
  shows "int (length rule_fb) = 4 - basic_score \<and>
         (\<exists>score feedback.
            check_password_strength u None (PyStr password) = (Inr (score, feedback), []) \<and>
            (feedback = [] \<longleftrightarrow> score = 4))"
proof -
  have r: "check_password_strength u None (PyStr password)
             = (Inr (rat_of_int basic_score, rule_fb), [])"
    using assms by (simp add: check_password_strength_def)
  have l: "int (length rule_fb) = 4 - basic_score"
    using assms(2) rule_feedback_length [of u password] by (simp add: basic_checks_eq)
  have e: "rule_fb = [] \<longleftrightarrow> rat_of_int basic_score = 4"
    using assms(2) rule_feedback_empty [of u password] by (auto simp add: basic_checks_eq)
  show ?thesis using r l e by blast
qed

theorem feedback_count_complements_score_witness:
  "py_lower arabic_indic_db (str ''Abcdefg1!'') \<notin> set COMMON_PASSWORDS \<and>
   basic_checks arabic_indic_db (str ''Abcdefg1!'') = (4, []) \<and>
   check_password_strength arabic_indic_db None (PyStr (str ''Abcdefg1!''))
     = (Inr (4, []), []) \<and>
   int (length ([] :: pystr list)) = 4 - 4"
proof -
  have a: "py_lower arabic_indic_db (str ''Abcdefg1!'') \<notin> set COMMON_PASSWORDS"
    by (simp add: py_lower_def str_def ascii_lower_def COMMON_PASSWORDS_def)
  have b: "basic_checks arabic_indic_db (str ''Abcdefg1!'') = (4, [])"
    by (simp add: basic_checks_eq passed_checks_def rule_feedback_def str_def search_defs)
  have c: "check_password_strength arabic_indic_db None (PyStr (str ''Abcdefg1!''))
             = (Inr (4, []), [])"
    using a b by (simp add: check_password_strength_def)
  show ?thesis
    using a b c feedback_count_complements_score [OF a b] by simp
qed

text \<open>
  The same on \<^verbatim>\<open>"abc"\<close>, where every check fails: score 0 and the four messages in
  the order length, case, digit, special.
\<close>

lemma abc_result:
  "check_password_strength u None (PyStr (str ''abc''))
     = (Inr (0, [msg_length, msg_case, msg_digit, msg_special]), [])"
  by (simp add: check_password_strength_def basic_checks_eq passed_checks_def rule_feedback_def
      py_lower_def ascii_lower_def COMMON_PASSWORDS_def str_def search_defs)

subsection \<open>The percentage\<close>

lemma py_int_of_int: "py_int (of_int m) = m"
  by (simp add: py_int_def)

lemma py_round_of_int: "py_round (of_int m) = m"
  by (simp add: py_round_def)

lemma percentage_of_int: "strength_percentage (of_int k) = min (25 * k) 100"
proof -
  have "(rat_of_int k / 4) * 100 = of_int (25 * k)" by simp
  then show ?thesis by (simp only: strength_percentage_def py_int_of_int)
qed

lemma spec_percentage_of_int: "spec_percentage (of_int k) = min (25 * k) 100"
proof -
  have "(rat_of_int k / 4) * 100 = of_int (25 * k)" by simp
  then show ?thesis by (simp only: spec_percentage_def py_round_of_int)
qed

lemma percentage_of_half:
  assumes "0 \<le> k" and "k \<le> 8"
  shows "strength_percentage (of_int k / 2) = (25 * k) div 2"
proof -
  have e: "(rat_of_int k / 2 / 4) * 100 = of_int (25 * k) / of_int 2" by simp
  have nn: "(0::rat) \<le> of_int (25 * k) / of_int 2" using assms(1) by simp
  have "py_int ((rat_of_int k / 2 / 4) * 100) = (25 * k) div 2"
    unfolding e py_int_def using nn by (simp only: if_True floor_divide_of_int_eq)
  moreover have "(25 * k) div 2 \<le> 100" using assms(2) by simp
  ultimately show ?thesis by (simp add: strength_percentage_def)
qed

lemma floor_of_half: "\<lfloor>rat_of_int k / 2 * 25\<rfloor> = (25 * k) div 2"
proof -
  have "rat_of_int k / 2 * 25 = of_int (25 * k) / of_int 2" by simp
  then show ?thesis by (simp only: floor_divide_of_int_eq)
qed

text \<open>
  Every score that \<^verbatim>\<open>check_password_strength\<close> returns is a half of an integer from 0 to
  8, and an integer without the estimator, provided the estimator keeps to its 0 to 4
  scale.
\<close>

lemma returned_score_shape:
  assumes "check_password_strength u zxcvbn v = (Inr (score, feedback), calls)"
      and "\<forall>estimate password result.
             zxcvbn = Some estimate \<longrightarrow> estimate password = Inr result \<longrightarrow>
             0 \<le> zx_score result \<and> zx_score result \<le> 4"
  shows "\<exists>k. 0 \<le> k \<and> k \<le> 8 \<and> score = of_int k / 2 \<and> (zxcvbn = None \<longrightarrow> even k)"
proof (cases v)
  case (PyStr password)
  show ?thesis
  proof (cases "py_lower u password \<in> set COMMON_PASSWORDS")
    case True
    with PyStr assms(1) have "score = of_int 0 / 2"
      by (simp add: check_password_strength_def)
    then show ?thesis by (intro exI [of _ 0]) simp
  next
    case False
    note r = passed_checks_range [of u password]
    show ?thesis
    proof (cases zxcvbn)
      case None
      with False PyStr assms(1) have "score = of_int (2 * passed_checks u password) / 2"
        by (auto simp add: check_password_strength_def basic_checks_eq)
      then show ?thesis using r by (intro exI [of _ "2 * passed_checks u password"]) simp
    next
      case (Some estimate)
      with False PyStr assms(1) obtain result where
        res: "estimate password = Inr result" and
        sc: "score = of_int (passed_checks u password + zx_score result) / 2"
        by (auto simp add: check_password_strength_def basic_checks_eq Let_def split: sum.splits)
      have "0 \<le> zx_score result \<and> zx_score result \<le> 4"
        using assms(2) Some res by blast
      then show ?thesis
        using r Some sc
        by (intro exI [of _ "passed_checks u password + zx_score result"]) simp
    qed
  qed
qed (use assms(1) in \<open>auto simp add: check_password_strength_def intro: exI [of _ 0]\<close>)

lemma strong_password_result:
  "check_password_strength arabic_indic_db (Some strong_estimate)
     (PyStr (str ''Xk9mQz7LpR2vBn8T''))
   = (Inr (7/2, [msg_special]), [str ''Xk9mQz7LpR2vBn8T''])"
  by (simp add: check_password_strength_def basic_checks_eq passed_checks_def rule_feedback_def
      py_lower_def ascii_lower_def COMMON_PASSWORDS_def strong_estimate_def str_def search_defs)

text \<open>
  Claim C1, as the code has it. For every score that \<^verbatim>\<open>check_password_strength\<close> returns
  (the estimator, when present, answering on its 0 to 4 scale), the percentage of line
  116 is \<open>score / 4 * 100\<close> truncated to an integer, that is the floor of \<open>25 * score\<close>; it
  lies between 0 and 100; without the estimator it is also the rounded value; score 4
  gives 100 and score 0 gives 0.
\<close>

theorem percentage_truncates:
  assumes "check_password_strength u zxcvbn v = (Inr (score, feedback), calls)"
      and "\<forall>estimate password result.
             zxcvbn = Some estimate \<longrightarrow> estimate password = Inr result \<longrightarrow>
             0 \<le> zx_score result \<and> zx_score result \<le> 4"
  shows "strength_percentage score = \<lfloor>score * 25\<rfloor> \<and>
         0 \<le> strength_percentage score \<and> strength_percentage score \<le> 100 \<and>
         (zxcvbn = None \<longrightarrow> strength_percentage score = spec_percentage score) \<and>
         strength_percentage 4 = 100 \<and> strength_percentage 0 = 0"
proof -
  from returned_score_shape [OF assms] obtain k where
    k: "0 \<le> k" "k \<le> 8" "score = of_int k / 2" "zxcvbn = None \<longrightarrow> even k"
    by blast
  have p: "strength_percentage score = (25 * k) div 2"
    using k(1,2) by (simp only: k(3) percentage_of_half)
  have f: "\<lfloor>score * 25\<rfloor> = (25 * k) div 2"
    by (simp only: k(3) floor_of_half)
  have a: "strength_percentage score = \<lfloor>score * 25\<rfloor>"
    using p f by simp
  have b: "0 \<le> strength_percentage score \<and> strength_percentage score \<le> 100"
    using p k(1,2) by simp
  have c: "zxcvbn = None \<longrightarrow> strength_percentage score = spec_percentage score"
  proof
    assume "zxcvbn = None"
    with k(4) obtain j where "k = 2 * j" by (auto elim: evenE)
    with k(3) have "score = of_int j" by simp
    then show "strength_percentage score = spec_percentage score"
      by (simp only: percentage_of_int spec_percentage_of_int)
  qed
  have d: "strength_percentage 4 = 100 \<and> strength_percentage 0 = 0"
    using percentage_of_int [of 4] percentage_of_int [of 0] by simp
  show ?thesis using a b c d by blast
qed

theorem percentage_truncates_witness:
  "check_password_strength arabic_indic_db (Some strong_estimate)
     (PyStr (str ''Xk9mQz7LpR2vBn8T''))
   = (Inr (7/2, [msg_special]), [str ''Xk9mQz7LpR2vBn8T'']) \<and>
   (\<forall>password. strong_estimate password
      = Inr \<lparr> zx_score = 4, zx_warning = [], zx_suggestions = [] \<rparr>) \<and>
   strength_percentage (7/2) = 87 \<and> \<lfloor>7 / 2 * 25 :: rat\<rfloor> = 87"
proof -
  have h: "\<forall>estimate password result.
             Some strong_estimate = Some estimate \<longrightarrow> estimate password = Inr result \<longrightarrow>
             0 \<le> zx_score result \<and> zx_score result \<le> 4"
    by (auto simp add: strong_estimate_def)
  have f: "\<lfloor>7 / 2 * 25 :: rat\<rfloor> = 87" by (simp add: floor_eq_iff)
  have s: "\<forall>password. strong_estimate password
             = Inr \<lparr> zx_score = 4, zx_warning = [], zx_suggestions = [] \<rparr>"
    by (simp add: strong_estimate_def)
  show ?thesis
    using strong_password_result s f percentage_truncates [OF strong_password_result h]
    by simp
qed

text \<open>
  The percentage is not the rounded one. A sixteen-character password of letters and
  digits without a special character passes three checks; with an estimator that
  answers 4 the score is 3.5, and \<open>3.5 / 4 * 100 = 87.5\<close> is truncated to 87, where
  rounding (to the even neighbour, or upwards) gives 88.
\<close>

theorem percentage_not_rounded:
  "check_password_strength arabic_indic_db (Some strong_estimate)
     (PyStr (str ''Xk9mQz7LpR2vBn8T''))
   = (Inr (7/2, [msg_special]), [str ''Xk9mQz7LpR2vBn8T'']) \<and>
   strength_percentage (7/2) = 87 \<and>
   spec_percentage (7/2) = 88 \<and>
   min (round (7/2 / 4 * 100 :: rat)) 100 = 88 \<and>
   strength_percentage (7/2) \<noteq> spec_percentage (7/2)"
proof -
  have e: "(7/2 / 4 * 100 :: rat) = 175/2" by simp
  have f: "\<lfloor>175/2 :: rat\<rfloor> = 87" by (simp add: floor_eq_iff)
  have a: "strength_percentage (7/2) = 87"
    unfolding strength_percentage_def py_int_def e using f by simp
  have b: "spec_percentage (7/2) = 88"
    unfolding spec_percentage_def py_round_def e using f by (simp add: Let_def)
  have c: "min (round (7/2 / 4 * 100 :: rat)) 100 = 88"
    unfolding e round_def by (simp add: floor_eq_iff)
  show ?thesis using strong_password_result a b c by simp
qed

subsection \<open>The generator\<close>

lemma characters_length: "length characters = 70"
  by (simp add: characters_def ascii_letters_def digits_def str_def)

lemma characters_distinct: "distinct characters"
  by (simp add: characters_def ascii_letters_def digits_def str_def)

lemma characters_in_pool: "c \<in> set characters \<Longrightarrow> in_pool c"
  by (auto simp add: characters_def ascii_letters_def digits_def str_def in_pool_def search_defs)

lemma upper_in_characters: "is_ascii_upper c \<Longrightarrow> c \<in> set characters"
  by (simp add: is_ascii_upper_def characters_def ascii_letters_def digits_def str_def) arith

lemma lower_in_characters: "is_ascii_lower c \<Longrightarrow> c \<in> set characters"
  by (simp add: is_ascii_lower_def characters_def ascii_letters_def digits_def str_def) arith

lemma digit_in_characters: "is_ascii_digit c \<Longrightarrow> c \<in> set characters"
  by (simp add: is_ascii_digit_def characters_def ascii_letters_def digits_def str_def) arith

lemma special_in_characters: "is_special c \<Longrightarrow> c \<in> set characters"
  by (simp add: is_special_def special_characters_def characters_def)

lemma characters_pool: "set characters = {c. in_pool c}"
  using characters_in_pool upper_in_characters lower_in_characters digit_in_characters
    special_in_characters
  by (auto simp add: in_pool_def)

lemma random_choice_mem: "seq \<noteq> [] \<Longrightarrow> random_choice seq r \<in> set seq"
  by (simp add: random_choice_def)

text \<open>
  Claim C6. For an integer \<open>n\<close> of at least 1, whatever the generator draws,
  \<^verbatim>\<open>generate_strong_password\<close> returns a string of exactly \<open>n\<close> characters, each of them
  in the pool; the pool has 70 distinct symbols: the upper-case letters, the lower-case
  letters, the digits and the eight special characters.
\<close>

theorem generate_length_and_pool:
  assumes "1 \<le> n"
  shows "\<exists>s. generate_strong_password draws (PyInt n) = Inr s \<and> int (length s) = n \<and>
           (\<forall>c \<in> set s. c \<in> set characters \<and> in_pool c) \<and>
           length characters = 70 \<and> distinct characters \<and> set characters = {c. in_pool c}"
proof -
  let ?s = "map (\<lambda>k. random_choice characters (draws k)) [0 ..< nat n]"
  have ne: "characters \<noteq> []" using characters_length by auto
  have "generate_strong_password draws (PyInt n) = Inr ?s"
    by (simp add: generate_strong_password_def py_range_def)
  moreover have "int (length ?s) = n" using assms by simp
  moreover have "\<forall>c \<in> set ?s. c \<in> set characters \<and> in_pool c"
    using random_choice_mem [OF ne] characters_in_pool by auto
  ultimately show ?thesis
    using characters_length characters_distinct characters_pool by blast
qed

theorem generate_length_and_pool_witness:
  "(1::int) \<le> 3 \<and> generate_strong_password (\<lambda>k. 7 * k + 3) (PyInt 3) = Inr (str ''dkr'')"
proof -
  have "[0 ..< nat 3] = [0, 1, 2]" by code_simp
  then have e: "generate_strong_password (\<lambda>k. 7 * k + 3) (PyInt 3) = Inr (str ''dkr'')"
    by (simp add: generate_strong_password_def py_range_def random_choice_def characters_def
        ascii_letters_def digits_def str_def)
  show ?thesis using generate_length_and_pool [of 3 "\<lambda>k. 7 * k + 3"] e by simp
qed

text \<open>
  Claim C7. For an integer length that is zero or negative, \<^verbatim>\<open>generate_strong_password\<close>
  returns the empty string, and no error.
\<close>

theorem generate_nonpositive_empty:
  "n \<le> 0 \<Longrightarrow> generate_strong_password draws (PyInt n) = Inr []"
  by (simp add: generate_strong_password_def py_range_def)

theorem generate_nonpositive_empty_witness:
  "(-3::int) \<le> 0 \<and> generate_strong_password (\<lambda>k. 7 * k + 3) (PyInt (-3)) = Inr []"
  using generate_nonpositive_empty [of "-3" "\<lambda>k. 7 * k + 3"] by simp

subsection \<open>Tier and colour\<close>

text \<open>
  Claim C8. The tier displayed for a score is Strong exactly when the score is at least
  3.5, Moderate exactly when it is at least 2.5 and below 3.5, and Weak exactly when it
  is below 2.5.
\<close>

theorem tier_thresholds:
  "(strength_tier score = Strong \<longleftrightarrow> score \<ge> 3.5) \<and>
   (strength_tier score = Moderate \<longleftrightarrow> 2.5 \<le> score \<and> score < 3.5) \<and>
   (strength_tier score = Weak \<longleftrightarrow> score < 2.5)"
  by (simp add: strength_tier_def)

theorem tier_thresholds_witness:
  "strength_tier (7/2) = Strong \<and> strength_tier 3 = Moderate \<and>
   strength_tier (5/2) = Moderate \<and> strength_tier 2 = Weak"
  using tier_thresholds [of "7/2"] tier_thresholds [of 3] tier_thresholds [of "5/2"]
    tier_thresholds [of 2]
  by simp

text \<open>
  Claim C9. The colour of the progress bar is red exactly when the percentage is below
  40, orange exactly when it is from 40 to 69, and green exactly when it is 70 or more.
\<close>

theorem color_thresholds:
  "(get_progress_color percentage = color_red \<longleftrightarrow> percentage < 40) \<and>
   (get_progress_color percentage = color_orange \<longleftrightarrow> 40 \<le> percentage \<and> percentage \<le> 69) \<and>
   (get_progress_color percentage = color_green \<longleftrightarrow> percentage \<ge> 70)"
  by (auto simp add: get_progress_color_def color_red_def color_orange_def color_green_def)

theorem color_thresholds_witness:
  "get_progress_color 39 = color_red \<and> get_progress_color 40 = color_orange \<and>
   get_progress_color 69 = color_orange \<and> get_progress_color 70 = color_green"
  using color_thresholds [of 39] color_thresholds [of 40] color_thresholds [of 69]
    color_thresholds [of 70]
  by simp

end
